theory Spec2Isabelle
  imports Main "HOL-Library.Sublist"
begin

section \<open>JavaScript values\<close>

text \<open>
  A value of TypeScript's \<open>unknown\<close>, as far as \<open>src/App.tsx\<close> inspects it.  The elements
  of an array have the type \<open>'a\<close>: \<open>ensureArray<T>\<close> asserts \<open>T[]\<close> on the array it finds
  and never looks at an element.  An object is the list of its own enumerable properties
  in the order in which \<open>Object.values\<close> enumerates them.  The payload of a number plays
  no role in this program.
\<close>

datatype 'a js_value =
    JUndefined
  | JNull
  | JBool bool
  | JNum int
  | JStr string
  | JArray "'a list"
  | JObject "(string \<times> 'a js_value) list"

text \<open>The \<open>typeof\<close> operator.\<close>

fun typeof :: "'a js_value \<Rightarrow> string" where
  "typeof JUndefined = ''undefined''"
| "typeof JNull = ''object''"
| "typeof (JBool b) = ''boolean''"
| "typeof (JNum n) = ''number''"
| "typeof (JStr s) = ''string''"
| "typeof (JArray xs) = ''object''"
| "typeof (JObject kvs) = ''object''"

text \<open>Truthiness, as \<open>response && ...\<close> and \<open>!id\<close> test it.\<close>

fun ToBoolean :: "'a js_value \<Rightarrow> bool" where
  "ToBoolean JUndefined = False"
| "ToBoolean JNull = False"
| "ToBoolean (JBool b) = b"
| "ToBoolean (JNum n) = (n \<noteq> 0)"
| "ToBoolean (JStr s) = (s \<noteq> [])"
| "ToBoolean (JArray xs) = True"
| "ToBoolean (JObject kvs) = True"

fun Array_isArray :: "'a js_value \<Rightarrow> bool" where
  "Array_isArray (JArray xs) = True"
| "Array_isArray _ = False"

text \<open>The type assertion \<open>as T[]\<close> on a value that passed \<open>Array.isArray\<close>.\<close>

fun as_array :: "'a js_value \<Rightarrow> 'a list" where
  "as_array (JArray xs) = xs"
| "as_array _ = []"

text \<open>Reading a property: a name the object does not have reads as \<open>undefined\<close>.\<close>

fun get_property :: "'a js_value \<Rightarrow> string \<Rightarrow> 'a js_value" where
  "get_property (JObject kvs) k = (case map_of kvs k of Some v \<Rightarrow> v | None \<Rightarrow> JUndefined)"
| "get_property _ k = JUndefined"

fun Object_values :: "'a js_value \<Rightarrow> 'a js_value list" where
  "Object_values (JObject kvs) = map snd kvs"
| "Object_values _ = []"

section \<open>The response normalizer\<close>

text \<open>The \<open>for ... of\<close> loop of \<open>ensureArray\<close> over \<open>Object.values(response)\<close>.\<close>

fun first_array_value :: "'a js_value list \<Rightarrow> 'a list \<Rightarrow> 'a list" where
  "first_array_value [] fallback = fallback"
| "first_array_value (v # vs) fallback =
     (if Array_isArray v then as_array v else first_array_value vs fallback)"

definition ensureArray :: "'a js_value \<Rightarrow> 'a list \<Rightarrow> 'a list" where
  "ensureArray response fallback =
     (if Array_isArray response then as_array response
      else if ToBoolean response \<and> typeof response = ''object'' then
        (if Array_isArray (get_property response ''data'')
         then as_array (get_property response ''data'')
         else first_array_value (Object_values response) fallback)
      else fallback)"

section \<open>Strings\<close>

text \<open>
  A string of the program is a sequence of UTF-16 code units; the model holds such a
  string, when it is well formed (no unpaired surrogate), as the bytes of its UTF-8
  encoding, one \<^typ>\<open>char\<close> per byte.  Equality, concatenation, emptiness and the
  occurrence of one string in another are the same in both encodings; the program never
  takes the length of a string or indexes one.
\<close>

text \<open>The number of bytes of the code point whose encoding starts with the byte \<open>c\<close>.\<close>

definition utf8_length :: "char \<Rightarrow> nat" where
  "utf8_length c =
     (let n = (of_char c :: nat)
      in if n < 0xC0 then 1 else if n < 0xE0 then 2 else if n < 0xF0 then 3 else 4)"

text \<open>The code points of a string, each as its bytes.\<close>

fun code_points :: "string \<Rightarrow> string list" where
  "code_points [] = []"
| "code_points (c # s) =
     (c # take (utf8_length c - 1) s) # code_points (drop (utf8_length c - 1) s)"

text \<open>
  \<open>trim\<close> removes white space and line terminators from both ends: \<open>U+0009\<close> to
  \<open>U+000D\<close>, \<open>U+0020\<close>, \<open>U+00A0\<close>, \<open>U+1680\<close>, \<open>U+2000\<close> to \<open>U+200A\<close>, \<open>U+2028\<close>, \<open>U+2029\<close>,
  \<open>U+202F\<close>, \<open>U+205F\<close>, \<open>U+3000\<close> and \<open>U+FEFF\<close>.
\<close>

definition white_space :: "string list" where
  "white_space =
    [[CHR 0x09], [CHR 0x0A], [CHR 0x0B], [CHR 0x0C], [CHR 0x0D], [CHR 0x20],
     [CHR 0xC2, CHR 0xA0], [CHR 0xE1, CHR 0x9A, CHR 0x80],
     [CHR 0xE2, CHR 0x80, CHR 0x80], [CHR 0xE2, CHR 0x80, CHR 0x81],
     [CHR 0xE2, CHR 0x80, CHR 0x82], [CHR 0xE2, CHR 0x80, CHR 0x83],
     [CHR 0xE2, CHR 0x80, CHR 0x84], [CHR 0xE2, CHR 0x80, CHR 0x85],
     [CHR 0xE2, CHR 0x80, CHR 0x86], [CHR 0xE2, CHR 0x80, CHR 0x87],
     [CHR 0xE2, CHR 0x80, CHR 0x88], [CHR 0xE2, CHR 0x80, CHR 0x89],
     [CHR 0xE2, CHR 0x80, CHR 0x8A], [CHR 0xE2, CHR 0x80, CHR 0xA8],
     [CHR 0xE2, CHR 0x80, CHR 0xA9], [CHR 0xE2, CHR 0x80, CHR 0xAF],
     [CHR 0xE2, CHR 0x81, CHR 0x9F], [CHR 0xE3, CHR 0x80, CHR 0x80],
     [CHR 0xEF, CHR 0xBB, CHR 0xBF]]"

definition is_white_space :: "string \<Rightarrow> bool" where
  "is_white_space cp = (cp \<in> set white_space)"

definition trim :: "string \<Rightarrow> string" where
  "trim s =
     concat (rev (dropWhile is_white_space (rev (dropWhile is_white_space (code_points s)))))"

text \<open>
  \<open>toLowerCase\<close> is the case conversion of the Unicode standard, without a locale.  The
  model has its table for Basic Latin and the Latin-1 Supplement, for \<open>U+0130\<close>, which
  becomes \<open>i\<close> followed by \<open>U+0307\<close>, and for the Greek capital sigma \<open>U+03A3\<close>, which
  becomes the final sigma \<open>U+03C2\<close> when a cased letter and then any number of
  case-ignorable characters come before it and no such run ending in a cased letter comes
  after it, and the small sigma \<open>U+03C3\<close> otherwise.  So the conversion depends on the
  context and may change the length.  Other code points are outside the table and are
  left as they are.
\<close>

fun lower_code_point :: "string \<Rightarrow> string" where
  "lower_code_point [c] =
     (let n = (of_char c :: nat)
      in if 0x41 \<le> n \<and> n \<le> 0x5A then [char_of (n + 0x20)] else [c])"
| "lower_code_point [c1, c2] =
     (let m = (of_char c1 :: nat); n = (of_char c2 :: nat)
      in if m = 0xC3 \<and> 0x80 \<le> n \<and> n \<le> 0x9E \<and> n \<noteq> 0x97 then [c1, char_of (n + 0x20)]
         else if m = 0xC4 \<and> n = 0xB0 then [CHR 0x69, CHR 0xCC, CHR 0x87]
         else if m = 0xCE \<and> n = 0xA3 then [CHR 0xCF, CHR 0x83]
         else [c1, c2])"
| "lower_code_point cp = cp"

text \<open>The properties \<open>Cased\<close> and \<open>Case_Ignorable\<close> on the same code points.\<close>

fun is_cased :: "string \<Rightarrow> bool" where
  "is_cased [c] =
     (let n = (of_char c :: nat)
      in (0x41 \<le> n \<and> n \<le> 0x5A) \<or> (0x61 \<le> n \<and> n \<le> 0x7A))"
| "is_cased [c1, c2] =
     (let m = (of_char c1 :: nat); n = (of_char c2 :: nat)
      in (m = 0xC2 \<and> n \<in> {0xAA, 0xB5, 0xBA}) \<or>
         (m = 0xC3 \<and> 0x80 \<le> n \<and> n \<le> 0xBF \<and> n \<notin> {0x97, 0xB7}) \<or>
         (m = 0xC4 \<and> n = 0xB0) \<or>
         (m = 0xCE \<and> n = 0xA3) \<or>
         (m = 0xCF \<and> n \<in> {0x82, 0x83}))"
| "is_cased cp = False"

fun is_case_ignorable :: "string \<Rightarrow> bool" where
  "is_case_ignorable [c] = ((of_char c :: nat) \<in> {0x27, 0x2E, 0x3A, 0x5E, 0x60})"
| "is_case_ignorable [c1, c2] =
     (let m = (of_char c1 :: nat); n = (of_char c2 :: nat)
      in (m = 0xC2 \<and> n \<in> {0xA8, 0xAD, 0xAF, 0xB4, 0xB7, 0xB8}) \<or> (m = 0xCC \<and> n = 0x87))"
| "is_case_ignorable cp = False"

text \<open>Whether case-ignorable characters and then a cased letter come next.\<close>

fun followed_by_cased :: "string list \<Rightarrow> bool" where
  "followed_by_cased [] = False"
| "followed_by_cased (cp # cps) =
     (if is_case_ignorable cp then followed_by_cased cps else is_cased cp)"

text \<open>
  The conversion, code point by code point.  \<open>after_cased\<close> says that a cased letter and
  then only case-ignorable characters come before the current code point.
\<close>

fun lower_code_points :: "bool \<Rightarrow> string list \<Rightarrow> string list" where
  "lower_code_points after_cased [] = []"
| "lower_code_points after_cased (cp # cps) =
     (if cp = [CHR 0xCE, CHR 0xA3] \<and> after_cased \<and> \<not> followed_by_cased cps
      then [CHR 0xCF, CHR 0x82] else lower_code_point cp) #
     lower_code_points (if is_case_ignorable cp then after_cased else is_cased cp) cps"

definition toLowerCase :: "string \<Rightarrow> string" where
  "toLowerCase s = concat (lower_code_points False (code_points s))"








section \<open>The data model\<close>

text \<open>
  \<open>interface Todo\<close>.  The field \<open>id'\<close> is the interface's \<open>id\<close>.  Its type is a parameter:
  in the application's state it is a string, as the interface says; in a record
  delivered by the store it is any value, since \<open>loadTodos\<close> tests at run time that it
  is a string.  An absent \<open>due_date\<close> is \<open>None\<close>.  \<open>category\<close> and \<open>priority\<close> are the strings
  that the code compares with \<open>===\<close>.
\<close>

record 'i todo_fields =
  id' :: 'i
  title :: string
  description :: string
  category :: string
  priority :: string
  completed :: bool
  created_at :: string
  due_date :: "string option"
  user_id :: string

type_synonym Todo = "string todo_fields"

type_synonym 'b StoredTodo = "'b js_value todo_fields"

record category_entry =
  cat_id :: string
  cat_name :: string
  cat_icon :: string
  cat_color :: string

record priority_entry =
  prio_id :: string
  prio_name :: string
  prio_color :: string

definition categories :: "category_entry list" where
  "categories =
    [\<lparr>cat_id = ''work'', cat_name = ''Work'', cat_icon = ''Briefcase'',
       cat_color = ''bg-blue-100 text-blue-800''\<rparr>,
     \<lparr>cat_id = ''personal'', cat_name = ''Personal'', cat_icon = ''Heart'',
       cat_color = ''bg-pink-100 text-pink-800''\<rparr>,
     \<lparr>cat_id = ''health'', cat_name = ''Health'', cat_icon = ''Heart'',
       cat_color = ''bg-green-100 text-green-800''\<rparr>,
     \<lparr>cat_id = ''home'', cat_name = ''Home'', cat_icon = ''Home'',
       cat_color = ''bg-yellow-100 text-yellow-800''\<rparr>,
     \<lparr>cat_id = ''learning'', cat_name = ''Learning'', cat_icon = ''BookOpen'',
       cat_color = ''bg-purple-100 text-purple-800''\<rparr>,
     \<lparr>cat_id = ''shopping'', cat_name = ''Shopping'', cat_icon = ''ShoppingCart'',
       cat_color = ''bg-orange-100 text-orange-800''\<rparr>,
     \<lparr>cat_id = ''other'', cat_name = ''Other'', cat_icon = ''Settings'',
       cat_color = ''bg-gray-100 text-gray-800''\<rparr>]"

definition priorities :: "priority_entry list" where
  "priorities =
    [\<lparr>prio_id = ''low'', prio_name = ''Low'', prio_color = ''bg-green-100 text-green-800''\<rparr>,
     \<lparr>prio_id = ''medium'', prio_name = ''Medium'',
       prio_color = ''bg-yellow-100 text-yellow-800''\<rparr>,
     \<lparr>prio_id = ''high'', prio_name = ''High'', prio_color = ''bg-red-100 text-red-800''\<rparr>]"

text \<open>The signed-in user, \<open>{ id: string; email: string }\<close>; \<open>uid\<close> is its \<open>id\<close>.\<close>

record User =
  uid :: string
  email :: string

text \<open>The React state of \<open>App\<close>.\<close>

record AppState =
  todos :: "Todo list"
  user :: "User option"
  newTodo :: string
  newDescription :: string
  searchTerm :: string
  selectedCategory :: string
  isLoading :: bool
  isAddingTodo :: bool

section \<open>The collaborators\<close>

text \<open>
  An awaited promise either fulfils with a value or rejects; a rejection is the
  exception that the enclosing \<open>try\<close> catches.
\<close>

datatype 'a settled = Fulfilled 'a | Rejected

text \<open>
  What an operation does to the outside, in order: requests to the text generation
  service and to the store, and the notifications shown to the user.  Diagnostics on
  the console are left out.
\<close>

datatype effect =
    GenerateText string nat
  | DbList string
  | DbCreate Todo
  | DbUpdate string bool
  | DbDelete string
  | ToastSuccess string
  | ToastError string

text \<open>
  The text generation service: for a prompt and a token limit, the \<open>text\<close> of the
  response or a rejection.
\<close>

type_synonym generator = "string \<Rightarrow> nat \<Rightarrow> string settled"

section \<open>The classifier\<close>

definition nl :: string where
  "nl = [CHR 0x0A]"

definition dq :: string where
  "dq = [CHR 0x22]"

definition categorize_prompt :: "string \<Rightarrow> string \<Rightarrow> string" where
  "categorize_prompt title' description' = concat
    [''Categorize this todo task into one of these categories: work, personal, health, home, learning, shopping, other.'', nl,
     ''        '', nl,
     ''        Task: '', dq, title', dq, nl,
     ''        Description: '', dq, description', dq, nl,
     ''        '', nl,
     ''        Consider these guidelines:'', nl,
     ''        - work: professional tasks, meetings, projects, deadlines'', nl,
     ''        - personal: hobbies, social activities, personal goals'', nl,
     ''        - health: exercise, medical appointments, wellness'', nl,
     ''        - home: chores, maintenance, home improvement'', nl,
     ''        - learning: education, skills, reading, courses'', nl,
     ''        - shopping: buying items, groceries, online purchases'', nl,
     ''        - other: anything that doesn't fit the above'', nl,
     ''        '', nl,
     ''        Respond with just the category name (lowercase).'']"

definition prioritize_prompt :: "string \<Rightarrow> string \<Rightarrow> string" where
  "prioritize_prompt title' description' = concat
    [''Determine the priority level for this todo task: low, medium, or high.'', nl,
     ''        '', nl,
     ''        Task: '', dq, title', dq, nl,
     ''        Description: '', dq, description', dq, nl,
     ''        '', nl,
     ''        Consider urgency, importance, and impact:'', nl,
     ''        - high: urgent deadlines, important meetings, critical tasks'', nl,
     ''        - medium: important but not urgent, moderate impact'', nl,
     ''        - low: nice to have, can be done later, minimal impact'', nl,
     ''        '', nl,
     ''        Respond with just the priority level (lowercase).'']"

text \<open>
  \<open>categorizeTodo\<close> and \<open>prioritizeTodo\<close>: the label and the request made.  A rejection
  stands for every exception inside \<open>try\<close>; the \<open>catch\<close> branch returns the default.
\<close>

definition categorizeTodo :: "generator \<Rightarrow> string \<Rightarrow> string \<Rightarrow> string \<times> effect list" where
  "categorizeTodo generateText title' description' =
     (let prompt = categorize_prompt title' description'
      in case generateText prompt 50 of
           Fulfilled text \<Rightarrow>
             (let category' = toLowerCase (trim text)
              in (if find (\<lambda>cat. cat_id cat = category') categories \<noteq> None
                  then category' else ''other'',
                  [GenerateText prompt 50]))
         | Rejected \<Rightarrow> (''other'', [GenerateText prompt 50]))"

definition prioritizeTodo :: "generator \<Rightarrow> string \<Rightarrow> string \<Rightarrow> string \<times> effect list" where
  "prioritizeTodo generateText title' description' =
     (let prompt = prioritize_prompt title' description'
      in case generateText prompt 50 of
           Fulfilled text \<Rightarrow>
             (let priority' = toLowerCase (trim text)
              in (if find (\<lambda>p. prio_id p = priority') priorities \<noteq> None
                  then priority' else ''medium'',
                  [GenerateText prompt 50]))
         | Rejected \<Rightarrow> (''medium'', [GenerateText prompt 50]))"

section \<open>The task list controller\<close>

subsection \<open>Load\<close>

text \<open>
  \<open>new Map(entries)\<close> sets the entries in order: a key that is already present keeps
  its place and takes the new value, a new key goes to the end.  \<open>values()\<close> follows
  that order.
\<close>

fun Map_set :: "('k \<times> 'v) list \<Rightarrow> 'k \<Rightarrow> 'v \<Rightarrow> ('k \<times> 'v) list" where
  "Map_set [] k v = [(k, v)]"
| "Map_set ((k', v') # m) k v = (if k' = k then (k, v) # m else (k', v') # Map_set m k v)"

definition new_Map :: "('k \<times> 'v) list \<Rightarrow> ('k \<times> 'v) list" where
  "new_Map entries = foldl (\<lambda>m (k, v). Map_set m k v) [] entries"

definition Map_values :: "('k \<times> 'v) list \<Rightarrow> 'v list" where
  "Map_values m = map snd m"

text \<open>The filter of \<open>loadTodos\<close>: \<open>typeof t.id === 'string' && t.id.trim() !== ''\<close>.\<close>

fun as_string :: "'b js_value \<Rightarrow> string" where
  "as_string (JStr s) = s"
| "as_string _ = []"

definition has_valid_id :: "'b StoredTodo \<Rightarrow> bool" where
  "has_valid_id t = (typeof (id' t) = ''string'' \<and> trim (as_string (id' t)) \<noteq> [])"

text \<open>A record that passed the filter, at the type \<open>Todo\<close>: its \<open>id\<close> is a string.\<close>

definition as_Todo :: "'b StoredTodo \<Rightarrow> Todo" where
  "as_Todo t =
     \<lparr>id' = as_string (id' t), title = title t, description = description t,
      category = category t, priority = priority t, completed = completed t,
      created_at = created_at t, due_date = due_date t, user_id = user_id t\<rparr>"

text \<open>
  \<open>loadTodos\<close>, given how the promise of \<open>blink.db.todos.list\<close> settles.  Without a
  user, \<open>user.id\<close> throws before the request is made, and the \<open>catch\<close> branch runs.  The
  elements of the delivered array are records, as \<open>ensureArray<Todo>\<close> asserts; the state
  after \<open>finally\<close> is returned.
\<close>

definition loadTodos :: "'b StoredTodo js_value settled \<Rightarrow> AppState \<Rightarrow> AppState \<times> effect list" where
  "loadTodos listed st =
     (case user st of
        None \<Rightarrow> (st\<lparr>isLoading := False\<rparr>, [ToastError ''Failed to load todos''])
      | Some u \<Rightarrow>
          (case listed of
             Rejected \<Rightarrow>
               (st\<lparr>isLoading := False\<rparr>, [DbList (uid u), ToastError ''Failed to load todos''])
           | Fulfilled response \<Rightarrow>
               (let todoArray = ensureArray response [];
                    validArray = map as_Todo (filter has_valid_id todoArray);
                    uniqueArray = Map_values (new_Map (map (\<lambda>t. (id' t, t)) validArray))
                in (st\<lparr>todos := uniqueArray, isLoading := False\<rparr>, [DbList (uid u)]))))"

subsection \<open>Create\<close>

text \<open>
  \<open>addTodo\<close>, given the text generation service, how the promise of
  \<open>blink.db.todos.create\<close> settles, the result of \<open>crypto.randomUUID()\<close> and the two
  results of \<open>new Date().toISOString()\<close>.
\<close>

definition addTodo ::
  "generator \<Rightarrow> unit settled \<Rightarrow> string \<Rightarrow> string \<Rightarrow> string \<Rightarrow> AppState \<Rightarrow> AppState \<times> effect list"
where
  "addTodo generateText created uuid now1 now2 st =
     (if trim (newTodo st) = [] then (st, [])
      else
        (let (category', ev1) = categorizeTodo generateText (newTodo st) (newDescription st);
             (priority', ev2) = prioritizeTodo generateText (newTodo st) (newDescription st)
         in case user st of
              None \<Rightarrow>
                (st\<lparr>isAddingTodo := False\<rparr>, ev1 @ ev2 @ [ToastError ''Failed to add todo''])
            | Some u \<Rightarrow>
                (let request =
                       \<lparr>id' = uuid, title = newTodo st, description = newDescription st,
                        category = category', priority = priority', completed = False,
                        created_at = now1, due_date = None, user_id = uid u\<rparr>
                 in case created of
                      Rejected \<Rightarrow>
                        (st\<lparr>isAddingTodo := False\<rparr>,
                         ev1 @ ev2 @ [DbCreate request, ToastError ''Failed to add todo''])
                    | Fulfilled ack \<Rightarrow>
                        (let createdTodo =
                               \<lparr>id' = uuid, title = newTodo st, description = newDescription st,
                                category = category', priority = priority', completed = False,
                                created_at = now2, due_date = None, user_id = uid u\<rparr>;
                             withoutDuplicate =
                               filter (\<lambda>t. id' t \<noteq> id' createdTodo)
                                 (ensureArray (JArray (todos st)) [])
                         in (st\<lparr>todos := createdTodo # withoutDuplicate, newTodo := [],
                                newDescription := [], isAddingTodo := False\<rparr>,
                             ev1 @ ev2 @
                             [DbCreate request,
                              ToastSuccess
                                (''Todo added and auto-categorized as '' @ category' @ ''!'')])))))"

subsection \<open>Toggle completion and delete\<close>

text \<open>\<open>toggleTodo\<close>, given how the promise of \<open>blink.db.todos.update\<close> settles.\<close>

definition toggleTodo :: "unit settled \<Rightarrow> string \<Rightarrow> bool \<Rightarrow> AppState \<Rightarrow> AppState \<times> effect list" where
  "toggleTodo updated i completed' st =
     (if i = [] then (st, [])
      else case updated of
             Fulfilled ack \<Rightarrow>
               (st\<lparr>todos :=
                     map (\<lambda>todo. if id' todo = i then todo\<lparr>completed := completed'\<rparr> else todo)
                       (todos st)\<rparr>,
                [DbUpdate i completed',
                 ToastSuccess
                   (if completed' then ''Todo completed!'' else ''Todo marked as incomplete'')])
           | Rejected \<Rightarrow> (st, [DbUpdate i completed', ToastError ''Failed to update todo'']))"

text \<open>\<open>deleteTodo\<close>, given how the promise of \<open>blink.db.todos.delete\<close> settles.\<close>

definition deleteTodo :: "unit settled \<Rightarrow> string \<Rightarrow> AppState \<Rightarrow> AppState \<times> effect list" where
  "deleteTodo deleted i st =
     (case deleted of
        Fulfilled ack \<Rightarrow>
          (st\<lparr>todos := filter (\<lambda>todo. id' todo \<noteq> i) (todos st)\<rparr>,
           [DbDelete i, ToastSuccess ''Todo deleted''])
      | Rejected \<Rightarrow> (st, [DbDelete i, ToastError ''Failed to delete todo'']))"

section \<open>The view's derived values\<close>

definition safeTodos :: "AppState \<Rightarrow> Todo list" where
  "safeTodos st = todos st"


definition completedCount :: "AppState \<Rightarrow> nat" where
  "completedCount st = length (filter (\<lambda>todo. completed todo) (safeTodos st))"

definition totalCount :: "AppState \<Rightarrow> nat" where
  "totalCount st = length (safeTodos st)"

definition highPriorityCount :: "AppState \<Rightarrow> nat" where
  "highPriorityCount st =
     length (filter (\<lambda>todo. priority todo = ''high'' \<and> \<not> completed todo) (safeTodos st))"

section \<open>Kinds of effects\<close>

fun is_update :: "effect \<Rightarrow> bool" where
  "is_update (DbUpdate i c) = True"
| "is_update _ = False"

fun is_store_request :: "effect \<Rightarrow> bool" where
  "is_store_request (DbList u) = True"
| "is_store_request (DbCreate t) = True"
| "is_store_request (DbUpdate i c) = True"
| "is_store_request (DbDelete i) = True"
| "is_store_request _ = False"

fun is_failure_notification :: "effect \<Rightarrow> bool" where
  "is_failure_notification (ToastError m) = True"
| "is_failure_notification _ = False"

fun is_success_notification :: "effect \<Rightarrow> bool" where
  "is_success_notification (ToastSuccess m) = True"
| "is_success_notification _ = False"

section \<open>Example values\<close>

definition example_user :: User where
  "example_user = \<lparr>uid = ''u1'', email = ''u1@example.org''\<rparr>"

definition example_todo :: "string \<Rightarrow> string \<Rightarrow> string \<Rightarrow> bool \<Rightarrow> Todo" where
  "example_todo i t d c =
     \<lparr>id' = i, title = t, description = d, category = ''other'', priority = ''medium'',
      completed = c, created_at = ''2025-01-01T00:00:00.000Z'', due_date = None,
      user_id = ''u1''\<rparr>"

definition example_stored :: "unit js_value \<Rightarrow> string \<Rightarrow> unit StoredTodo" where
  "example_stored i t =
     \<lparr>id' = i, title = t, description = [], category = ''other'', priority = ''medium'',
      completed = False, created_at = ''2025-01-01T00:00:00.000Z'', due_date = None,
      user_id = ''u1''\<rparr>"

definition example_state :: "Todo list \<Rightarrow> string \<Rightarrow> string \<Rightarrow> AppState" where
  "example_state ts t d =
     \<lparr>todos = ts, user = Some example_user, newTodo = t, newDescription = d,
      searchTerm = [], selectedCategory = ''all'', isLoading = False, isAddingTodo = False\<rparr>"

text \<open>A service that answers the category request with \<open>Shopping\<close> and any other with \<open>low\<close>.\<close>

definition example_generator :: generator where
  "example_generator prompt maxTokens =
     (if take 10 prompt = ''Categorize'' then Fulfilled '' Shopping '' else Fulfilled ''low'')"

text \<open>
  A delivered sequence with a repeated id, a blank id and a missing id, and a response
  that wraps it.
\<close>

definition example_records :: "unit StoredTodo list" where
  "example_records =
     [example_stored (JStr ''a'') ''first'', example_stored (JStr '' '') ''blank'',
      example_stored JUndefined ''missing'', example_stored (JStr ''a'') ''second'',
      example_stored (JStr ''b'') ''third'']"

definition example_response :: "unit StoredTodo js_value" where
  "example_response = JObject [(''count'', JNum 5), (''data'', JArray example_records)]"

section \<open>Properties of the normalizer\<close>

subsection \<open>The normalizer's cases\<close>

lemma ensureArray_JArray: "ensureArray (JArray xs) fallback = xs"
  by (simp add: ensureArray_def)

lemma ensureArray_JObject:
  "ensureArray (JObject kvs) fallback =
     (case map_of kvs ''data'' of
        Some (JArray xs) \<Rightarrow> xs
      | _ \<Rightarrow> first_array_value (map snd kvs) fallback)"
  by (simp add: ensureArray_def split: option.split js_value.split)

lemma ensureArray_other:
  "\<not> Array_isArray v \<Longrightarrow> (\<forall>kvs. v \<noteq> JObject kvs) \<Longrightarrow> ensureArray v fallback = fallback"
  by (cases v) (simp_all add: ensureArray_def)

lemma first_array_value_none:
  "\<forall>v \<in> set vs. \<not> Array_isArray v \<Longrightarrow> first_array_value vs fallback = fallback"
  by (induction vs) simp_all

lemma first_array_value_at:
  "i < length vs \<Longrightarrow> vs ! i = JArray xs \<Longrightarrow> \<forall>j < i. \<not> Array_isArray (vs ! j) \<Longrightarrow>
     first_array_value vs fallback = xs"
proof (induction vs arbitrary: i)
  case Nil
  then show ?case by simp
next
  case (Cons v vs)
  show ?case
  proof (cases i)
    case 0
    with Cons.prems show ?thesis by simp
  next
    case (Suc k)
    with Cons.prems have "\<not> Array_isArray v" by auto
    moreover have "first_array_value vs fallback = xs"
    proof (rule Cons.IH [of k])
      show "k < length vs" using Cons.prems Suc by simp
      show "vs ! k = JArray xs" using Cons.prems Suc by simp
      show "\<forall>j<k. \<not> Array_isArray (vs ! j)"
      proof (intro allI impI)
        fix j assume "j < k"
        then have "Suc j < i" using Suc by simp
        with Cons.prems have "\<not> Array_isArray ((v # vs) ! Suc j)" by blast
        then show "\<not> Array_isArray (vs ! j)" by simp
      qed
    qed
    ultimately show ?thesis by simp
  qed
qed

text \<open>
  C2.  With the default fallback, \<open>ensureArray\<close> returns an array unchanged; of an object
  it returns the array under the key \<open>data\<close> when that property is an array, otherwise
  the first array among the property values in the order of the keys, and the empty
  array when no property is an array; of every other value it returns the empty array.
  \<open>ensureArray\<close> has no branch that throws: every case ends in a \<open>return\<close>, so the
  function is total.
\<close>

theorem ensureArray_shapes:
  "ensureArray (JArray xs) [] = xs \<and>
   (map_of kvs ''data'' = Some (JArray xs) \<longrightarrow> ensureArray (JObject kvs) [] = xs) \<and>
   ((\<forall>ys. map_of kvs ''data'' \<noteq> Some (JArray ys)) \<and> i < length kvs \<and>
      snd (kvs ! i) = JArray xs \<and> (\<forall>j < i. \<not> Array_isArray (snd (kvs ! j))) \<longrightarrow>
    ensureArray (JObject kvs) [] = xs) \<and>
   ((\<forall>kv \<in> set kvs. \<not> Array_isArray (snd kv)) \<longrightarrow> ensureArray (JObject kvs) [] = []) \<and>
   (\<not> Array_isArray v \<and> (\<forall>fields. v \<noteq> JObject fields) \<longrightarrow> ensureArray v [] = [])"
proof (intro conjI impI)
  show "ensureArray (JArray xs) [] = xs"
    by (rule ensureArray_JArray)
next
  assume "map_of kvs ''data'' = Some (JArray xs)"
  then show "ensureArray (JObject kvs) [] = xs"
    by (simp add: ensureArray_JObject)
next
  assume h: "(\<forall>ys. map_of kvs ''data'' \<noteq> Some (JArray ys)) \<and> i < length kvs \<and>
      snd (kvs ! i) = JArray xs \<and> (\<forall>j < i. \<not> Array_isArray (snd (kvs ! j)))"
  then have "first_array_value (map snd kvs) [] = xs"
    by (intro first_array_value_at [of i]) simp_all
  moreover have "ensureArray (JObject kvs) [] = first_array_value (map snd kvs) []"
    using h by (simp add: ensureArray_JObject split: option.split js_value.split)
  ultimately show "ensureArray (JObject kvs) [] = xs" by simp
next
  assume h: "\<forall>kv \<in> set kvs. \<not> Array_isArray (snd kv)"
  then have "first_array_value (map snd kvs) [] = []"
    by (intro first_array_value_none) simp
  moreover have "map_of kvs ''data'' \<noteq> Some (JArray ys)" for ys
  proof
    assume "map_of kvs ''data'' = Some (JArray ys)"
    then have "(''data'', JArray ys) \<in> set kvs" by (rule map_of_SomeD)
    with h show False by force
  qed
  then have "ensureArray (JObject kvs) [] = first_array_value (map snd kvs) []"
    by (simp add: ensureArray_JObject split: option.split js_value.split)
  ultimately show "ensureArray (JObject kvs) [] = []" by simp
next
  assume "\<not> Array_isArray v \<and> (\<forall>fields. v \<noteq> JObject fields)"
  then show "ensureArray v [] = []"
    by (intro ensureArray_other) simp_all
qed

theorem ensureArray_shapes_witness:
  "ensureArray (JArray [1, 2 :: nat]) [] = [1, 2] \<and>
   ensureArray (JObject [(''items'', JArray [7]), (''data'', JArray [1, 2 :: nat])]) [] = [1, 2] \<and>
   ensureArray (JObject [(''data'', JNull), (''count'', JNum 2), (''rows'', JArray [3 :: nat]),
      (''more'', JArray [4])]) [] = [3] \<and>
   ensureArray (JObject [(''data'', JNull), (''count'', JNum 2)]) [] = ([] :: nat list) \<and>
   ensureArray JNull [] = ([] :: nat list)"
proof -
  let ?kvs1 = "[(''items'', JArray [7]), (''data'', JArray [1, 2 :: nat])]"
  let ?kvs2 = "[(''data'', JNull), (''count'', JNum 2), (''rows'', JArray [3 :: nat]),
      (''more'', JArray [4])]"
  let ?kvs3 = "[(''data'', JNull), (''count'', JNum 2)] :: (string \<times> nat js_value) list"
  have h1: "map_of ?kvs1 ''data'' = Some (JArray [1, 2])" by simp
  have h2: "(\<forall>ys. map_of ?kvs2 ''data'' \<noteq> Some (JArray ys)) \<and> 2 < length ?kvs2 \<and>
      snd (?kvs2 ! 2) = JArray [3] \<and> (\<forall>j < 2. \<not> Array_isArray (snd (?kvs2 ! j)))"
    by (simp add: less_Suc_eq numeral_2_eq_2)
  have h3: "\<forall>kv \<in> set ?kvs3. \<not> Array_isArray (snd kv)" by simp
  have h4: "\<not> Array_isArray (JNull :: nat js_value) \<and>
      (\<forall>fields. (JNull :: nat js_value) \<noteq> JObject fields)"
    by simp
  note a = ensureArray_shapes [where xs = "[1, 2 :: nat]" and kvs = ?kvs1 and i = 0 and v = JNull]
  note b = ensureArray_shapes [where xs = "[3 :: nat]" and kvs = ?kvs2 and i = 2 and v = JNull]
  note c = ensureArray_shapes [where xs = "[] :: nat list" and kvs = ?kvs3 and i = 0 and v = JNull]
  have w1: "ensureArray (JArray [1, 2 :: nat]) [] = [1, 2]"
    by (rule a [THEN conjunct1])
  have w2: "ensureArray (JObject ?kvs1) [] = [1, 2]"
    by (rule a [THEN conjunct2, THEN conjunct1, THEN mp, OF h1])
  have w3: "ensureArray (JObject ?kvs2) [] = [3]"
    by (rule b [THEN conjunct2, THEN conjunct2, THEN conjunct1, THEN mp, OF h2])
  have w4: "ensureArray (JObject ?kvs3) [] = []"
    by (rule c [THEN conjunct2, THEN conjunct2, THEN conjunct2, THEN conjunct1, THEN mp, OF h3])
  have w5: "ensureArray JNull [] = ([] :: nat list)"
    by (rule c [THEN conjunct2, THEN conjunct2, THEN conjunct2, THEN conjunct2, THEN mp, OF h4])
  show ?thesis
    by (intro conjI w1 w2 w3 w4 w5)
qed

section \<open>Properties of the classifier\<close>

lemma category_ids: "set (map cat_id categories) = {''work'', ''personal'', ''health'', ''home'', ''learning'', ''shopping'', ''other''}"
  by (simp add: categories_def)

lemma priority_ids: "set (map prio_id priorities) = {''low'', ''medium'', ''high''}"
  by (simp add: priorities_def)

lemma find_category: "(find (\<lambda>cat. cat_id cat = c) categories = None) = (c \<notin> set (map cat_id categories))"
  by (auto simp: find_None_iff)

lemma find_priority: "(find (\<lambda>p. prio_id p = c) priorities = None) = (c \<notin> set (map prio_id priorities))"
  by (auto simp: find_None_iff)

lemma fst_categorizeTodo:
  "fst (categorizeTodo g t d) =
     (case g (categorize_prompt t d) 50 of
        Fulfilled text \<Rightarrow>
          if toLowerCase (trim text) \<in> set (map cat_id categories)
          then toLowerCase (trim text) else ''other''
      | Rejected \<Rightarrow> ''other'')"
  by (simp add: categorizeTodo_def Let_def find_category split: settled.split)

lemma fst_prioritizeTodo:
  "fst (prioritizeTodo g t d) =
     (case g (prioritize_prompt t d) 50 of
        Fulfilled text \<Rightarrow>
          if toLowerCase (trim text) \<in> set (map prio_id priorities)
          then toLowerCase (trim text) else ''medium''
      | Rejected \<Rightarrow> ''medium'')"
  by (simp add: prioritizeTodo_def Let_def find_priority split: settled.split)

lemma snd_categorizeTodo: "snd (categorizeTodo g t d) = [GenerateText (categorize_prompt t d) 50]"
  by (simp add: categorizeTodo_def Let_def split: settled.split)

lemma snd_prioritizeTodo: "snd (prioritizeTodo g t d) = [GenerateText (prioritize_prompt t d) 50]"
  by (simp add: prioritizeTodo_def Let_def split: settled.split)


lemma other_is_category: "''other'' \<in> set (map cat_id categories)"
  by (simp add: categories_def)

lemma medium_is_priority: "''medium'' \<in> set (map prio_id priorities)"
  by (simp add: priorities_def)

lemma categorizeTodo_member: "fst (categorizeTodo g t d) \<in> set (map cat_id categories)"
proof (cases "g (categorize_prompt t d) 50")
  case (Fulfilled s)
  then show ?thesis
    using other_is_category by (simp only: fst_categorizeTodo settled.case split: if_split) blast
next
  case Rejected
  then show ?thesis
    using other_is_category by (simp only: fst_categorizeTodo settled.case)
qed

lemma prioritizeTodo_member: "fst (prioritizeTodo g t d) \<in> set (map prio_id priorities)"
proof (cases "g (prioritize_prompt t d) 50")
  case (Fulfilled s)
  then show ?thesis
    using medium_is_priority by (simp only: fst_prioritizeTodo settled.case split: if_split) blast
next
  case Rejected
  then show ?thesis
    using medium_is_priority by (simp only: fst_prioritizeTodo settled.case)
qed

text \<open>
  C3.  For every title, description and behaviour of the text generation service,
  \<open>categorizeTodo\<close> and \<open>prioritizeTodo\<close> return a member of their closed set of labels:
  the trimmed, lowercased response when it is in the set, and \<open>other\<close> respectively
  \<open>medium\<close> when it is not or when the service rejects.  The failure is not passed on:
  the result is always a label.
\<close>

theorem classifier_returns_enum_member:
  "fst (categorizeTodo g t d) \<in>
     {''work'', ''personal'', ''health'', ''home'', ''learning'', ''shopping'', ''other''} \<and>
   fst (categorizeTodo g t d) =
     (case g (categorize_prompt t d) 50 of
        Fulfilled text \<Rightarrow>
          if toLowerCase (trim text) \<in>
               {''work'', ''personal'', ''health'', ''home'', ''learning'', ''shopping'', ''other''}
          then toLowerCase (trim text) else ''other''
      | Rejected \<Rightarrow> ''other'') \<and>
   fst (prioritizeTodo g t d) \<in> {''low'', ''medium'', ''high''} \<and>
   fst (prioritizeTodo g t d) =
     (case g (prioritize_prompt t d) 50 of
        Fulfilled text \<Rightarrow>
          if toLowerCase (trim text) \<in> {''low'', ''medium'', ''high''}
          then toLowerCase (trim text) else ''medium''
      | Rejected \<Rightarrow> ''medium'')"
  using categorizeTodo_member [of g t d] prioritizeTodo_member [of g t d]
    fst_categorizeTodo [of g t d] fst_prioritizeTodo [of g t d]
  unfolding category_ids priority_ids by (intro conjI)

theorem classifier_returns_enum_member_witness:
  "fst (categorizeTodo (\<lambda>p n. Fulfilled '' Shopping '') ''Buy milk'' []) = ''shopping'' \<and>
   fst (prioritizeTodo (\<lambda>p n. Fulfilled ''urgent!!'') ''Buy milk'' []) = ''medium'' \<and>
   fst (prioritizeTodo (\<lambda>p n. Rejected) ''Buy milk'' []) = ''medium''"
proof -
  have a: "toLowerCase (trim '' Shopping '') = ''shopping''" by code_simp
  have b: "toLowerCase (trim ''urgent!!'') = ''urgent!!''" by code_simp
  note c = classifier_returns_enum_member
      [of "\<lambda>p n. Fulfilled '' Shopping ''" "''Buy milk''" "[]"]
  note u = classifier_returns_enum_member
      [of "\<lambda>p n. Fulfilled ''urgent!!''" "''Buy milk''" "[]"]
  note r = classifier_returns_enum_member [of "\<lambda>p n. Rejected" "''Buy milk''" "[]"]
  have "fst (categorizeTodo (\<lambda>p n. Fulfilled '' Shopping '') ''Buy milk'' []) =
     (if toLowerCase (trim '' Shopping '') \<in>
          {''work'', ''personal'', ''health'', ''home'', ''learning'', ''shopping'', ''other''}
      then toLowerCase (trim '' Shopping '') else ''other'')"
    using c by (simp only: settled.case)
  then have w1: "fst (categorizeTodo (\<lambda>p n. Fulfilled '' Shopping '') ''Buy milk'' []) =
      ''shopping''"
    unfolding a by simp
  have "fst (prioritizeTodo (\<lambda>p n. Fulfilled ''urgent!!'') ''Buy milk'' []) =
     (if toLowerCase (trim ''urgent!!'') \<in> {''low'', ''medium'', ''high''}
      then toLowerCase (trim ''urgent!!'') else ''medium'')"
    using u by (simp only: settled.case)
  then have w2: "fst (prioritizeTodo (\<lambda>p n. Fulfilled ''urgent!!'') ''Buy milk'' []) =
      ''medium''"
    unfolding b by simp
  have w3: "fst (prioritizeTodo (\<lambda>p n. Rejected) ''Buy milk'' []) = ''medium''"
    using r by (simp only: settled.case)
  show ?thesis
    by (intro conjI w1 w2 w3)
qed

section \<open>Properties of load and create\<close>

lemma Map_set_keys:
  "map fst (Map_set m k v) = (if k \<in> set (map fst m) then map fst m else map fst m @ [k])"
  by (induction m k v rule: Map_set.induct) auto

lemma Map_set_entries: "set (Map_set m k v) \<subseteq> insert (k, v) (set m)"
  by (induction m k v rule: Map_set.induct) auto

lemma foldl_Map_set_keys:
  "set (map fst (foldl (\<lambda>m (k, v). Map_set m k v) m es)) = set (map fst m) \<union> set (map fst es)"
proof (induction es arbitrary: m)
  case Nil
  then show ?case by simp
next
  case (Cons e es)
  obtain k v where e: "e = (k, v)" by (cases e)
  have "set (map fst (Map_set m k v)) = insert k (set (map fst m))"
    by (auto simp: Map_set_keys)
  then show ?case
    using Cons.IH [of "Map_set m k v"] by (simp add: e)
qed

lemma foldl_Map_set_distinct:
  "distinct (map fst m) \<Longrightarrow> distinct (map fst (foldl (\<lambda>m (k, v). Map_set m k v) m es))"
proof (induction es arbitrary: m)
  case Nil
  then show ?case by simp
next
  case (Cons e es)
  obtain k v where e: "e = (k, v)" by (cases e)
  have "distinct (map fst (Map_set m k v))"
    using Cons.prems by (simp add: Map_set_keys)
  then show ?case
    using Cons.IH [of "Map_set m k v"] by (simp add: e)
qed

lemma foldl_Map_set_entries:
  "set (foldl (\<lambda>m (k, v). Map_set m k v) m es) \<subseteq> set m \<union> set es"
proof (induction es arbitrary: m)
  case Nil
  then show ?case by simp
next
  case (Cons e es)
  obtain k v where e: "e = (k, v)" by (cases e)
  have "set (foldl (\<lambda>m (k, v). Map_set m k v) (Map_set m k v) es) \<subseteq> set (Map_set m k v) \<union> set es"
    by (rule Cons.IH)
  then show ?case
    using Map_set_entries [of m k v] by (auto simp: e)
qed

lemma new_Map_distinct: "distinct (map fst (new_Map es))"
  unfolding new_Map_def by (rule foldl_Map_set_distinct) simp

lemma new_Map_keys: "set (map fst (new_Map es)) = set (map fst es)"
  unfolding new_Map_def using foldl_Map_set_keys [of "[]" es] by simp

lemma new_Map_entries: "set (new_Map es) \<subseteq> set es"
  unfolding new_Map_def using foldl_Map_set_entries [of "[]" es] by simp

text \<open>The values of a map that was built from the pairs \<open>(key x, x)\<close>.\<close>

lemma keyed_values:
  "map key (Map_values (new_Map (map (\<lambda>x. (key x, x)) xs))) =
     map fst (new_Map (map (\<lambda>x. (key x, x)) xs))"
proof -
  have "\<forall>e \<in> set (new_Map (map (\<lambda>x. (key x, x)) xs)). key (snd e) = fst e"
    using new_Map_entries [of "map (\<lambda>x. (key x, x)) xs"] by auto
  then show ?thesis
    by (simp add: Map_values_def)
qed

lemma keyed_values_distinct:
  "distinct (map key (Map_values (new_Map (map (\<lambda>x. (key x, x)) xs))))"
  by (simp only: keyed_values new_Map_distinct)

lemma keyed_values_keys:
  "set (map key (Map_values (new_Map (map (\<lambda>x. (key x, x)) xs)))) = key ` set xs"
  by (simp only: keyed_values new_Map_keys) (simp add: image_image)

lemma keyed_values_subset:
  "set (Map_values (new_Map (map (\<lambda>x. (key x, x)) xs))) \<subseteq> set xs"
  using new_Map_entries [of "map (\<lambda>x. (key x, x)) xs"] by (auto simp: Map_values_def)

lemma typeof_string: "(typeof x = ''string'') = (\<exists>s. x = JStr s)"
  by (cases x) simp_all

lemma has_valid_id_iff: "has_valid_id t = (\<exists>s. id' t = JStr s \<and> trim s \<noteq> [])"
  by (auto simp: has_valid_id_def typeof_string)

lemma id_as_Todo: "id' (as_Todo t) = as_string (id' t)"
  by (simp add: as_Todo_def)

lemma valid_ids:
  "id' ` set (map as_Todo (filter has_valid_id ts)) =
     {i. trim i \<noteq> [] \<and> (\<exists>t \<in> set ts. id' t = JStr i)}"
  by (force simp: has_valid_id_iff id_as_Todo image_iff)

lemma todos_loadTodos:
  "user st = Some u \<Longrightarrow>
   todos (fst (loadTodos (Fulfilled response) st)) =
     Map_values (new_Map (map (\<lambda>t. (id' t, t))
       (map as_Todo (filter has_valid_id (ensureArray response [])))))"
  by (simp add: loadTodos_def Let_def)

lemma todos_addTodo:
  "todos (fst (addTodo g created uuid now1 now2 st)) = todos st \<or>
   (\<exists>new. id' new = uuid \<and>
      todos (fst (addTodo g created uuid now1 now2 st)) =
        new # filter (\<lambda>t. id' t \<noteq> uuid) (todos st))"
  by (simp add: addTodo_def Let_def ensureArray_JArray split: prod.split option.split settled.split)

lemma ensureArray_delivered:
  "response = JArray xs \<or> (\<exists>kvs. response = JObject kvs \<and> map_of kvs ''data'' = Some (JArray xs)) \<Longrightarrow>
   ensureArray response [] = xs"
  by (auto simp: ensureArray_JArray ensureArray_JObject)

lemma example_loaded:
  "todos (fst (loadTodos (Fulfilled example_response) (example_state [] ''Buy milk'' []))) =
     [example_todo ''a'' ''second'' [] False, example_todo ''b'' ''third'' [] False]"
proof -
  have a: "trim ''a'' = ''a''" by code_simp
  have b: "trim ''b'' = ''b''" by code_simp
  have c: "trim '' '' = []" by code_simp
  show ?thesis
    by (simp add: loadTodos_def example_state_def example_response_def example_records_def
        ensureArray_def example_stored_def has_valid_id_def a b c as_Todo_def new_Map_def
        Map_values_def example_todo_def Let_def example_user_def)
qed

text \<open>
  C1.  Let the list request fulfil with the sequence \<open>xs\<close> of records, bare or under the
  key \<open>data\<close> of a wrapper object, while a user is signed in.  After \<open>loadTodos\<close> the ids
  of the collection are pairwise distinct and are exactly the strings that are not blank
  and are the id of some record of \<open>xs\<close>, and each entry is a record of \<open>xs\<close> with such
  an id: one entry for each distinct id that is not blank, none for a record whose id is
  missing, not a string or blank.  The insertion of \<open>addTodo\<close> keeps the ids pairwise
  distinct, however the operation ends.
\<close>

theorem load_and_create_keep_ids_unique:
  "(user st = Some u \<and>
    (response = JArray xs \<or>
     (\<exists>kvs. response = JObject kvs \<and> map_of kvs ''data'' = Some (JArray xs))) \<longrightarrow>
      distinct (map id' (todos (fst (loadTodos (Fulfilled response) st)))) \<and>
      set (map id' (todos (fst (loadTodos (Fulfilled response) st)))) =
        {i. trim i \<noteq> [] \<and> (\<exists>t \<in> set xs. id' t = JStr i)} \<and>
      set (todos (fst (loadTodos (Fulfilled response) st))) \<subseteq>
        as_Todo ` {t \<in> set xs. has_valid_id t}) \<and>
   (distinct (map id' (todos st)) \<longrightarrow>
      distinct (map id' (todos (fst (addTodo g created uuid now1 now2 st)))))"
proof (intro conjI impI)
  assume h: "user st = Some u \<and>
    (response = JArray xs \<or>
     (\<exists>kvs. response = JObject kvs \<and> map_of kvs ''data'' = Some (JArray xs)))"
  then have u: "user st = Some u" and e: "ensureArray response [] = xs"
    by (simp_all add: ensureArray_delivered)
  have l: "todos (fst (loadTodos (Fulfilled response) st)) =
     Map_values (new_Map (map (\<lambda>t. (id' t, t)) (map as_Todo (filter has_valid_id xs))))"
    by (simp only: todos_loadTodos [OF u] e)
  show "distinct (map id' (todos (fst (loadTodos (Fulfilled response) st))))"
    by (simp only: l keyed_values_distinct)
  show "set (map id' (todos (fst (loadTodos (Fulfilled response) st)))) =
        {i. trim i \<noteq> [] \<and> (\<exists>t \<in> set xs. id' t = JStr i)}"
    by (simp only: l keyed_values_keys valid_ids)
  show "set (todos (fst (loadTodos (Fulfilled response) st))) \<subseteq>
        as_Todo ` {t \<in> set xs. has_valid_id t}"
    using keyed_values_subset [of id' "map as_Todo (filter has_valid_id xs)"]
    by (simp only: l) auto
next
  assume d: "distinct (map id' (todos st))"
  from todos_addTodo [of g created uuid now1 now2 st]
  show "distinct (map id' (todos (fst (addTodo g created uuid now1 now2 st))))"
  proof
    assume "todos (fst (addTodo g created uuid now1 now2 st)) = todos st"
    with d show ?thesis by simp
  next
    assume "\<exists>new. id' new = uuid \<and>
      todos (fst (addTodo g created uuid now1 now2 st)) =
        new # filter (\<lambda>t. id' t \<noteq> uuid) (todos st)"
    then obtain new where n: "id' new = uuid"
      and t: "todos (fst (addTodo g created uuid now1 now2 st)) =
        new # filter (\<lambda>t. id' t \<noteq> uuid) (todos st)"
      by blast
    have "distinct (map id' (filter (\<lambda>t. id' t \<noteq> uuid) (todos st)))"
      using d by (rule distinct_map_filter)
    moreover have "uuid \<notin> set (map id' (filter (\<lambda>t. id' t \<noteq> uuid) (todos st)))"
      by auto
    ultimately show ?thesis
      by (simp only: t n list.map distinct.simps) simp
  qed
qed

theorem load_and_create_keep_ids_unique_witness:
  "user (example_state [] ''Buy milk'' []) = Some example_user \<and>
   todos (fst (loadTodos (Fulfilled example_response) (example_state [] ''Buy milk'' []))) =
     [example_todo ''a'' ''second'' [] False, example_todo ''b'' ''third'' [] False] \<and>
   distinct (map id'
     (todos (fst (loadTodos (Fulfilled example_response) (example_state [] ''Buy milk'' []))))) \<and>
   {i. trim i \<noteq> [] \<and> (\<exists>t \<in> set example_records. id' t = JStr i)} = {''a'', ''b''} \<and>
   distinct (map id'
     (todos (example_state
        [example_todo ''a'' ''second'' [] False, example_todo ''b'' ''third'' [] False]
        ''Buy milk'' []))) \<and>
   distinct (map id'
     (todos (fst (addTodo (\<lambda>p n. Fulfilled ''shopping'') (Fulfilled ()) ''a'' ''t1'' ''t2''
        (example_state
           [example_todo ''a'' ''second'' [] False, example_todo ''b'' ''third'' [] False]
           ''Buy milk'' [])))))"
proof -
  let ?s0 = "example_state [] ''Buy milk'' []"
  let ?s1 = "example_state
        [example_todo ''a'' ''second'' [] False, example_todo ''b'' ''third'' [] False]
        ''Buy milk'' []"
  have usr: "user ?s0 = Some example_user"
    by (simp add: example_state_def)
  have shape: "example_response = JArray example_records \<or>
      (\<exists>kvs. example_response = JObject kvs \<and>
         map_of kvs ''data'' = Some (JArray example_records))"
    by (simp add: example_response_def)
  have h1: "user ?s0 = Some example_user \<and>
      (example_response = JArray example_records \<or>
       (\<exists>kvs. example_response = JObject kvs \<and>
          map_of kvs ''data'' = Some (JArray example_records)))"
    using usr shape by (rule conjI)
  have h2: "distinct (map id' (todos ?s1))"
    by (simp add: example_state_def example_todo_def)
  note load = load_and_create_keep_ids_unique
    [where st = ?s0 and u = example_user and response = example_response
       and xs = example_records, THEN conjunct1, THEN mp, OF h1]
  note create = load_and_create_keep_ids_unique
    [where st = ?s1 and g = "\<lambda>p n. Fulfilled ''shopping''" and created = "Fulfilled ()"
       and uuid = "''a''" and ?now1.0 = "''t1''" and ?now2.0 = "''t2''",
      THEN conjunct2, THEN mp, OF h2]
  have ids: "{i. trim i \<noteq> [] \<and> (\<exists>t \<in> set example_records. id' t = JStr i)} = {''a'', ''b''}"
    using load [THEN conjunct2, THEN conjunct1, symmetric]
    by (simp only: example_loaded) (simp add: example_todo_def)
  show ?thesis
    by (intro conjI usr example_loaded load [THEN conjunct1] ids h2 create)
qed

section \<open>Properties of the operations\<close>

lemma addTodo_blank:
  "trim (newTodo st) = [] \<Longrightarrow> addTodo g created uuid now1 now2 st = (st, [])"
  by (simp add: addTodo_def)

lemma addTodo_no_user:
  "trim (newTodo st) \<noteq> [] \<Longrightarrow> user st = None \<Longrightarrow>
   addTodo g created uuid now1 now2 st =
     (st\<lparr>isAddingTodo := False\<rparr>,
      [GenerateText (categorize_prompt (newTodo st) (newDescription st)) 50,
       GenerateText (prioritize_prompt (newTodo st) (newDescription st)) 50,
       ToastError ''Failed to add todo''])"
  by (simp add: addTodo_def split_beta snd_categorizeTodo snd_prioritizeTodo)

lemma addTodo_rejected:
  "trim (newTodo st) \<noteq> [] \<Longrightarrow> user st = Some u \<Longrightarrow>
   addTodo g Rejected uuid now1 now2 st =
     (st\<lparr>isAddingTodo := False\<rparr>,
      [GenerateText (categorize_prompt (newTodo st) (newDescription st)) 50,
       GenerateText (prioritize_prompt (newTodo st) (newDescription st)) 50,
       DbCreate
         \<lparr>id' = uuid, title = newTodo st, description = newDescription st,
          category = fst (categorizeTodo g (newTodo st) (newDescription st)),
          priority = fst (prioritizeTodo g (newTodo st) (newDescription st)),
          completed = False, created_at = now1, due_date = None, user_id = uid u\<rparr>,
       ToastError ''Failed to add todo''])"
  by (simp add: addTodo_def split_beta snd_categorizeTodo snd_prioritizeTodo)

lemma addTodo_fulfilled:
  "trim (newTodo st) \<noteq> [] \<Longrightarrow> user st = Some u \<Longrightarrow>
   addTodo g (Fulfilled ack) uuid now1 now2 st =
     (st\<lparr>todos :=
          \<lparr>id' = uuid, title = newTodo st, description = newDescription st,
           category = fst (categorizeTodo g (newTodo st) (newDescription st)),
           priority = fst (prioritizeTodo g (newTodo st) (newDescription st)),
           completed = False, created_at = now2, due_date = None, user_id = uid u\<rparr> #
          filter (\<lambda>t. id' t \<noteq> uuid) (todos st),
        newTodo := [], newDescription := [], isAddingTodo := False\<rparr>,
      [GenerateText (categorize_prompt (newTodo st) (newDescription st)) 50,
       GenerateText (prioritize_prompt (newTodo st) (newDescription st)) 50,
       DbCreate
         \<lparr>id' = uuid, title = newTodo st, description = newDescription st,
          category = fst (categorizeTodo g (newTodo st) (newDescription st)),
          priority = fst (prioritizeTodo g (newTodo st) (newDescription st)),
          completed = False, created_at = now1, due_date = None, user_id = uid u\<rparr>,
       ToastSuccess
         (''Todo added and auto-categorized as '' @
          fst (categorizeTodo g (newTodo st) (newDescription st)) @ ''!'')])"
  by (simp add: addTodo_def split_beta snd_categorizeTodo snd_prioritizeTodo ensureArray_JArray)

lemma toggleTodo_empty: "toggleTodo updated [] c st = (st, [])"
  by (simp add: toggleTodo_def)

lemma toggleTodo_rejected:
  "i \<noteq> [] \<Longrightarrow>
   toggleTodo Rejected i c st = (st, [DbUpdate i c, ToastError ''Failed to update todo''])"
  by (simp add: toggleTodo_def)

lemma toggleTodo_fulfilled:
  "i \<noteq> [] \<Longrightarrow>
   toggleTodo (Fulfilled ack) i c st =
     (st\<lparr>todos := map (\<lambda>todo. if id' todo = i then todo\<lparr>completed := c\<rparr> else todo) (todos st)\<rparr>,
      [DbUpdate i c,
       ToastSuccess (if c then ''Todo completed!'' else ''Todo marked as incomplete'')])"
  by (simp add: toggleTodo_def)

lemma deleteTodo_rejected:
  "deleteTodo Rejected i st = (st, [DbDelete i, ToastError ''Failed to delete todo''])"
  by (simp add: deleteTodo_def)

lemma deleteTodo_fulfilled:
  "deleteTodo (Fulfilled ack) i st =
     (st\<lparr>todos := filter (\<lambda>todo. id' todo \<noteq> i) (todos st)\<rparr>,
      [DbDelete i, ToastSuccess ''Todo deleted''])"
  by (simp add: deleteTodo_def)

lemma addTodo_cases:
  obtains (blank) "trim (newTodo st) = []"
    "addTodo g created uuid now1 now2 st = (st, [])"
  | (no_user) "trim (newTodo st) \<noteq> []" "user st = None"
    "addTodo g created uuid now1 now2 st =
       (st\<lparr>isAddingTodo := False\<rparr>,
        [GenerateText (categorize_prompt (newTodo st) (newDescription st)) 50,
         GenerateText (prioritize_prompt (newTodo st) (newDescription st)) 50,
         ToastError ''Failed to add todo''])"
  | (rejected) u where "trim (newTodo st) \<noteq> []" "user st = Some u" "created = Rejected"
    "addTodo g created uuid now1 now2 st =
     (st\<lparr>isAddingTodo := False\<rparr>,
      [GenerateText (categorize_prompt (newTodo st) (newDescription st)) 50,
       GenerateText (prioritize_prompt (newTodo st) (newDescription st)) 50,
       DbCreate
         \<lparr>id' = uuid, title = newTodo st, description = newDescription st,
          category = fst (categorizeTodo g (newTodo st) (newDescription st)),
          priority = fst (prioritizeTodo g (newTodo st) (newDescription st)),
          completed = False, created_at = now1, due_date = None, user_id = uid u\<rparr>,
       ToastError ''Failed to add todo''])"
  | (fulfilled) u ack where "trim (newTodo st) \<noteq> []" "user st = Some u"
    "created = Fulfilled ack"
    "addTodo g created uuid now1 now2 st =
     (st\<lparr>todos :=
          \<lparr>id' = uuid, title = newTodo st, description = newDescription st,
           category = fst (categorizeTodo g (newTodo st) (newDescription st)),
           priority = fst (prioritizeTodo g (newTodo st) (newDescription st)),
           completed = False, created_at = now2, due_date = None, user_id = uid u\<rparr> #
          filter (\<lambda>t. id' t \<noteq> uuid) (todos st),
        newTodo := [], newDescription := [], isAddingTodo := False\<rparr>,
      [GenerateText (categorize_prompt (newTodo st) (newDescription st)) 50,
       GenerateText (prioritize_prompt (newTodo st) (newDescription st)) 50,
       DbCreate
         \<lparr>id' = uuid, title = newTodo st, description = newDescription st,
          category = fst (categorizeTodo g (newTodo st) (newDescription st)),
          priority = fst (prioritizeTodo g (newTodo st) (newDescription st)),
          completed = False, created_at = now1, due_date = None, user_id = uid u\<rparr>,
       ToastSuccess
         (''Todo added and auto-categorized as '' @
          fst (categorizeTodo g (newTodo st) (newDescription st)) @ ''!'')])"
proof (cases "trim (newTodo st) = []")
  case True
  then show ?thesis using blank addTodo_blank by blast
next
  case nb: False
  show ?thesis
  proof (cases "user st")
    case None
    then show ?thesis using nb no_user addTodo_no_user by blast
  next
    case (Some u)
    show ?thesis
    proof (cases created)
      case (Fulfilled ack)
      then show ?thesis
        using nb Some fulfilled [of u ack] addTodo_fulfilled [of st u g ack uuid now1 now2]
        by blast
    next
      case Rejected
      then show ?thesis
        using nb Some rejected [of u] addTodo_rejected [of st u g uuid now1 now2] by blast
    qed
  qed
qed

lemma example_state_fields:
  "todos (example_state ts t d) = ts" "user (example_state ts t d) = Some example_user"
  "newTodo (example_state ts t d) = t" "newDescription (example_state ts t d) = d"
  "searchTerm (example_state ts t d) = []" "selectedCategory (example_state ts t d) = ''all''"
  by (simp_all add: example_state_def)

lemma example_todo_fields:
  "id' (example_todo i t d c) = i" "title (example_todo i t d c) = t"
  "description (example_todo i t d c) = d" "completed (example_todo i t d c) = c"
  "category (example_todo i t d c) = ''other''"
  by (simp_all add: example_todo_def)

lemma example_generator_category:
  "example_generator (categorize_prompt t d) 50 = Fulfilled '' Shopping ''"
  by (simp add: example_generator_def categorize_prompt_def)

lemma example_generator_priority:
  "example_generator (prioritize_prompt t d) 50 = Fulfilled ''low''"
  by (simp add: example_generator_def prioritize_prompt_def)

lemma example_category: "fst (categorizeTodo example_generator t d) = ''shopping''"
proof -
  have a: "toLowerCase (trim '' Shopping '') = ''shopping''" by code_simp
  have b: "''shopping'' \<in> set (map cat_id categories)" by (simp add: categories_def)
  show ?thesis
    by (simp only: fst_categorizeTodo example_generator_category settled.case a b if_True)
qed

lemma example_priority: "fst (prioritizeTodo example_generator t d) = ''low''"
proof -
  have a: "toLowerCase (trim ''low'') = ''low''" by code_simp
  have b: "''low'' \<in> set (map prio_id priorities)" by (simp add: priorities_def)
  show ?thesis
    by (simp only: fst_prioritizeTodo example_generator_priority settled.case a b if_True)
qed

lemma trim_Buy_milk: "trim ''Buy milk'' \<noteq> []"
  by code_simp

text \<open>
  C4.  When the store request of \<open>addTodo\<close>, \<open>toggleTodo\<close> or \<open>deleteTodo\<close> rejects, the
  collection is what it was before the operation, and the operation, having made the
  request, ends with the failure notification.  \<open>deleteTodo\<close> always makes its request;
  \<open>addTodo\<close> and \<open>toggleTodo\<close> make none for a blank title respectively an empty id.
\<close>

theorem rejected_store_call_abandons_operation:
  "todos (fst (addTodo g Rejected uuid now1 now2 st)) = todos st \<and>
   (list_ex is_store_request (snd (addTodo g Rejected uuid now1 now2 st)) \<longrightarrow>
      last (snd (addTodo g Rejected uuid now1 now2 st)) = ToastError ''Failed to add todo'') \<and>
   todos (fst (toggleTodo Rejected i c st)) = todos st \<and>
   (list_ex is_store_request (snd (toggleTodo Rejected i c st)) \<longrightarrow>
      last (snd (toggleTodo Rejected i c st)) = ToastError ''Failed to update todo'') \<and>
   todos (fst (deleteTodo Rejected i st)) = todos st \<and>
   list_ex is_store_request (snd (deleteTodo Rejected i st)) \<and>
   last (snd (deleteTodo Rejected i st)) = ToastError ''Failed to delete todo''"
proof -
  have create: "todos (fst (addTodo g Rejected uuid now1 now2 st)) = todos st \<and>
   (list_ex is_store_request (snd (addTodo g Rejected uuid now1 now2 st)) \<longrightarrow>
      last (snd (addTodo g Rejected uuid now1 now2 st)) = ToastError ''Failed to add todo'')"
    by (rule addTodo_cases [where st = st and g = g and created = Rejected and uuid = uuid
          and ?now1.0 = now1 and ?now2.0 = now2]) simp_all
  have toggle: "todos (fst (toggleTodo Rejected i c st)) = todos st \<and>
   (list_ex is_store_request (snd (toggleTodo Rejected i c st)) \<longrightarrow>
      last (snd (toggleTodo Rejected i c st)) = ToastError ''Failed to update todo'')"
    by (cases "i = []") (simp_all add: toggleTodo_empty toggleTodo_rejected)
  have delete: "todos (fst (deleteTodo Rejected i st)) = todos st \<and>
   list_ex is_store_request (snd (deleteTodo Rejected i st)) \<and>
   last (snd (deleteTodo Rejected i st)) = ToastError ''Failed to delete todo''"
    by (simp add: deleteTodo_rejected)
  from create toggle delete show ?thesis by (intro conjI) blast+
qed

theorem rejected_store_call_abandons_operation_witness:
  "list_ex is_store_request
     (snd (addTodo example_generator Rejected ''c'' ''t1'' ''t2''
        (example_state [example_todo ''a'' ''x'' [] False] ''Buy milk'' []))) \<and>
   last (snd (addTodo example_generator Rejected ''c'' ''t1'' ''t2''
        (example_state [example_todo ''a'' ''x'' [] False] ''Buy milk'' []))) =
     ToastError ''Failed to add todo'' \<and>
   list_ex is_store_request
     (snd (toggleTodo Rejected ''a'' True
        (example_state [example_todo ''a'' ''x'' [] False] ''Buy milk'' []))) \<and>
   last (snd (toggleTodo Rejected ''a'' True
        (example_state [example_todo ''a'' ''x'' [] False] ''Buy milk'' []))) =
     ToastError ''Failed to update todo''"
proof -
  let ?s = "example_state [example_todo ''a'' ''x'' [] False] ''Buy milk'' []"
  have nb: "trim (newTodo ?s) \<noteq> []"
    by (simp only: example_state_fields trim_Buy_milk not_False_eq_True)
  have h1: "list_ex is_store_request
     (snd (addTodo example_generator Rejected ''c'' ''t1'' ''t2'' ?s))"
    by (simp add: addTodo_rejected [OF nb example_state_fields(2)])
  have h2: "list_ex is_store_request (snd (toggleTodo Rejected ''a'' True ?s))"
    by (simp add: toggleTodo_rejected)
  note t = rejected_store_call_abandons_operation
    [where g = example_generator and uuid = "''c''" and ?now1.0 = "''t1''"
       and ?now2.0 = "''t2''" and st = ?s and i = "''a''" and c = True]
  note w1 = t [THEN conjunct2, THEN conjunct1, THEN mp, OF h1]
  note w2 = t [THEN conjunct2, THEN conjunct2, THEN conjunct2, THEN conjunct1, THEN mp, OF h2]
  show ?thesis
    by (intro conjI h1 w1 h2 w2)
qed

text \<open>
  C5.  For a title that is not blank after trimming, a signed-in user and a fulfilled
  store request, \<open>addTodo\<close> puts one new task in front of the collection, from which
  the entries with the new id were removed.  The new task has the two classifier
  results as category and priority, is not completed, and has the submitted title and
  description.  The last effect is the success notification naming the category.
\<close>

theorem successful_create_inserts_at_front:
  "trim (newTodo st) \<noteq> [] \<Longrightarrow> user st = Some u \<Longrightarrow>
   todos (fst (addTodo g (Fulfilled ack) uuid now1 now2 st)) =
     \<lparr>id' = uuid, title = newTodo st, description = newDescription st,
      category = fst (categorizeTodo g (newTodo st) (newDescription st)),
      priority = fst (prioritizeTodo g (newTodo st) (newDescription st)),
      completed = False, created_at = now2, due_date = None, user_id = uid u\<rparr> #
     filter (\<lambda>t. id' t \<noteq> uuid) (todos st) \<and>
   last (snd (addTodo g (Fulfilled ack) uuid now1 now2 st)) =
     ToastSuccess
       (''Todo added and auto-categorized as '' @
        fst (categorizeTodo g (newTodo st) (newDescription st)) @ ''!'')"
  by (simp add: addTodo_fulfilled)

theorem successful_create_inserts_at_front_witness:
  "trim (newTodo (example_state
      [example_todo ''a'' ''x'' [] False, example_todo ''b'' ''y'' [] True] ''Buy milk'' [])) \<noteq> [] \<and>
   user (example_state
      [example_todo ''a'' ''x'' [] False, example_todo ''b'' ''y'' [] True] ''Buy milk'' []) =
     Some example_user \<and>
   todos (fst (addTodo example_generator (Fulfilled ()) ''a'' ''t1'' ''t2''
     (example_state
        [example_todo ''a'' ''x'' [] False, example_todo ''b'' ''y'' [] True] ''Buy milk'' []))) =
     [\<lparr>id' = ''a'', title = ''Buy milk'', description = [], category = ''shopping'',
       priority = ''low'', completed = False, created_at = ''t2'', due_date = None,
       user_id = ''u1''\<rparr>,
      example_todo ''b'' ''y'' [] True] \<and>
   last (snd (addTodo example_generator (Fulfilled ()) ''a'' ''t1'' ''t2''
     (example_state
        [example_todo ''a'' ''x'' [] False, example_todo ''b'' ''y'' [] True] ''Buy milk'' []))) =
     ToastSuccess ''Todo added and auto-categorized as shopping!''"
proof -
  let ?s = "example_state
      [example_todo ''a'' ''x'' [] False, example_todo ''b'' ''y'' [] True] ''Buy milk'' []"
  have nb: "trim (newTodo ?s) \<noteq> []"
    by (simp only: example_state_fields trim_Buy_milk not_False_eq_True)
  have usr: "user ?s = Some example_user"
    by (rule example_state_fields)
  have f: "filter (\<lambda>t. id' t \<noteq> ''a'')
      [example_todo ''a'' ''x'' [] False, example_todo ''b'' ''y'' [] True] =
      [example_todo ''b'' ''y'' [] True]"
    by (simp add: example_todo_fields)
  have u: "uid example_user = ''u1''"
    by (simp add: example_user_def)
  note t = successful_create_inserts_at_front
    [OF nb usr, where g = example_generator and ack = "()" and uuid = "''a''"
       and ?now1.0 = "''t1''" and ?now2.0 = "''t2''"]
  have w1: "todos (fst (addTodo example_generator (Fulfilled ()) ''a'' ''t1'' ''t2'' ?s)) =
     [\<lparr>id' = ''a'', title = ''Buy milk'', description = [], category = ''shopping'',
       priority = ''low'', completed = False, created_at = ''t2'', due_date = None,
       user_id = ''u1''\<rparr>,
      example_todo ''b'' ''y'' [] True]"
    using t [THEN conjunct1]
    by (simp only: f u example_category example_priority example_state_fields)
  have w2: "last (snd (addTodo example_generator (Fulfilled ()) ''a'' ''t1'' ''t2'' ?s)) =
     ToastSuccess ''Todo added and auto-categorized as shopping!''"
    using t [THEN conjunct2]
    by (simp only: example_category example_state_fields) simp
  show ?thesis
    by (intro conjI nb usr w1 w2)
qed

text \<open>
  C10.  \<open>addTodo\<close> succeeds (it shows its success notification) exactly when the title is
  not blank, a user is signed in and the store request fulfils.  When it succeeds, both
  drafts are empty afterwards; when it does not, and so when the store request rejects,
  both drafts keep their values.
\<close>

theorem drafts_cleared_exactly_on_success:
  "(list_ex is_success_notification (snd (addTodo g created uuid now1 now2 st)) =
      (trim (newTodo st) \<noteq> [] \<and> user st \<noteq> None \<and> created \<noteq> Rejected)) \<and>
   (list_ex is_success_notification (snd (addTodo g created uuid now1 now2 st)) \<longrightarrow>
      newTodo (fst (addTodo g created uuid now1 now2 st)) = [] \<and>
      newDescription (fst (addTodo g created uuid now1 now2 st)) = []) \<and>
   (\<not> list_ex is_success_notification (snd (addTodo g created uuid now1 now2 st)) \<longrightarrow>
      newTodo (fst (addTodo g created uuid now1 now2 st)) = newTodo st \<and>
      newDescription (fst (addTodo g created uuid now1 now2 st)) = newDescription st) \<and>
   (created = Rejected \<longrightarrow>
      newTodo (fst (addTodo g created uuid now1 now2 st)) = newTodo st \<and>
      newDescription (fst (addTodo g created uuid now1 now2 st)) = newDescription st)"
proof -
  have main:
    "(list_ex is_success_notification (snd (addTodo g created uuid now1 now2 st)) =
      (trim (newTodo st) \<noteq> [] \<and> user st \<noteq> None \<and> created \<noteq> Rejected)) \<and>
   (list_ex is_success_notification (snd (addTodo g created uuid now1 now2 st)) \<longrightarrow>
      newTodo (fst (addTodo g created uuid now1 now2 st)) = [] \<and>
      newDescription (fst (addTodo g created uuid now1 now2 st)) = []) \<and>
   (\<not> list_ex is_success_notification (snd (addTodo g created uuid now1 now2 st)) \<longrightarrow>
      newTodo (fst (addTodo g created uuid now1 now2 st)) = newTodo st \<and>
      newDescription (fst (addTodo g created uuid now1 now2 st)) = newDescription st)"
    by (rule addTodo_cases [where st = st and g = g and created = created and uuid = uuid
          and ?now1.0 = now1 and ?now2.0 = now2]) simp_all
  then show ?thesis by blast
qed

theorem drafts_cleared_exactly_on_success_witness:
  "list_ex is_success_notification
     (snd (addTodo example_generator (Fulfilled ()) ''c'' ''t1'' ''t2''
        (example_state [] ''Buy milk'' ''2 litres''))) \<and>
   newTodo (fst (addTodo example_generator (Fulfilled ()) ''c'' ''t1'' ''t2''
        (example_state [] ''Buy milk'' ''2 litres''))) = [] \<and>
   newDescription (fst (addTodo example_generator (Fulfilled ()) ''c'' ''t1'' ''t2''
        (example_state [] ''Buy milk'' ''2 litres''))) = [] \<and>
   newTodo (fst (addTodo example_generator Rejected ''c'' ''t1'' ''t2''
        (example_state [] ''Buy milk'' ''2 litres''))) = ''Buy milk'' \<and>
   newDescription (fst (addTodo example_generator Rejected ''c'' ''t1'' ''t2''
        (example_state [] ''Buy milk'' ''2 litres''))) = ''2 litres''"
proof -
  let ?s = "example_state [] ''Buy milk'' ''2 litres''"
  have nb: "trim (newTodo ?s) \<noteq> []"
    by (simp only: example_state_fields trim_Buy_milk not_False_eq_True)
  have usr: "user ?s = Some example_user"
    by (rule example_state_fields)
  have h1: "list_ex is_success_notification
     (snd (addTodo example_generator (Fulfilled ()) ''c'' ''t1'' ''t2'' ?s))"
    by (simp add: addTodo_fulfilled [OF nb usr])
  note ok = drafts_cleared_exactly_on_success
    [where g = example_generator and created = "Fulfilled ()" and uuid = "''c''"
       and ?now1.0 = "''t1''" and ?now2.0 = "''t2''" and st = ?s]
  note ko = drafts_cleared_exactly_on_success
    [where g = example_generator and created = Rejected and uuid = "''c''"
       and ?now1.0 = "''t1''" and ?now2.0 = "''t2''" and st = ?s]
  note w1 = ok [THEN conjunct2, THEN conjunct1, THEN mp, OF h1]
  have w2: "newTodo (fst (addTodo example_generator Rejected ''c'' ''t1'' ''t2'' ?s)) =
      ''Buy milk'' \<and>
    newDescription (fst (addTodo example_generator Rejected ''c'' ''t1'' ''t2'' ?s)) =
      ''2 litres''"
    using ko [THEN conjunct2, THEN conjunct2, THEN conjunct2, THEN mp, OF refl]
    by (simp only: example_state_fields)
  show ?thesis
    using h1 w1 w2 by (intro conjI) (rule h1, rule conjunct1 [OF w1], rule conjunct2 [OF w1],
      rule conjunct1 [OF w2], rule conjunct2 [OF w2])
qed

section \<open>Properties of toggle completion\<close>

lemma toggleTodo_request_made:
  "list_ex is_update (snd (toggleTodo updated i c st)) = (i \<noteq> [])"
  by (cases updated) (simp_all add: toggleTodo_def)

text \<open>
  C7, amended.  For the empty id, and every completion state and collection,
  \<open>toggleTodo\<close> does nothing: it has no effect, so makes no request to the store, and
  leaves the state as it is.  The guard is \<open>!id\<close>, which only the empty string meets:
  for every other id, also one of white space only, the update request is made.  The
  collection is then still what it was when no task has that id.
\<close>

theorem toggle_empty_id_is_noop:
  "toggleTodo updated [] c st = (st, []) \<and>
   (i \<noteq> [] \<longrightarrow> DbUpdate i c \<in> set (snd (toggleTodo updated i c st))) \<and>
   ((\<forall>t \<in> set (todos st). id' t \<noteq> i) \<longrightarrow> todos (fst (toggleTodo updated i c st)) = todos st)"
proof (intro conjI impI)
  show "toggleTodo updated [] c st = (st, [])"
    by (rule toggleTodo_empty)
next
  assume "i \<noteq> []"
  then show "DbUpdate i c \<in> set (snd (toggleTodo updated i c st))"
    by (cases updated) (simp_all add: toggleTodo_fulfilled toggleTodo_rejected)
next
  assume h: "\<forall>t \<in> set (todos st). id' t \<noteq> i"
  then have "map (\<lambda>todo. if id' todo = i then todo\<lparr>completed := c\<rparr> else todo) (todos st) =
      todos st"
    by (simp add: map_idI)
  then show "todos (fst (toggleTodo updated i c st)) = todos st"
    by (cases updated) (simp_all add: toggleTodo_def)
qed

theorem toggle_empty_id_is_noop_witness:
  "DbUpdate '' '' True \<in> set (snd (toggleTodo Rejected '' '' True
      (example_state [example_todo ''a'' ''x'' [] False] [] []))) \<and>
   todos (fst (toggleTodo (Fulfilled ()) '' '' True
      (example_state [example_todo ''a'' ''x'' [] False] [] []))) =
     [example_todo ''a'' ''x'' [] False]"
proof -
  let ?s = "example_state [example_todo ''a'' ''x'' [] False] [] []"
  have h1: "'' '' \<noteq> []" by simp
  have h2: "\<forall>t \<in> set (todos ?s). id' t \<noteq> '' ''"
    by (simp add: example_state_fields example_todo_fields)
  note w1 = toggle_empty_id_is_noop
    [where updated = Rejected and i = "'' ''" and c = True and st = ?s,
      THEN conjunct2, THEN conjunct1, THEN mp, OF h1]
  have w2: "todos (fst (toggleTodo (Fulfilled ()) '' '' True ?s)) =
      [example_todo ''a'' ''x'' [] False]"
    using toggle_empty_id_is_noop
      [where updated = "Fulfilled ()" and i = "'' ''" and c = True and st = ?s,
        THEN conjunct2, THEN conjunct2, THEN mp, OF h2]
    by (simp only: example_state_fields)
  show ?thesis
    by (intro conjI w1 w2)
qed

text \<open>
  An id of one space is blank, and \<open>toggleTodo\<close> sends the update request for it.
\<close>

theorem toggle_blank_id_counterexample:
  "trim '' '' = [] \<and>
   snd (toggleTodo (Fulfilled ()) '' '' True (example_state [] [] [])) =
     [DbUpdate '' '' True, ToastSuccess ''Todo completed!'']"
proof -
  have "trim '' '' = []" by code_simp
  moreover have "snd (toggleTodo (Fulfilled ()) '' '' True (example_state [] [] [])) =
     [DbUpdate '' '' True, ToastSuccess ''Todo completed!'']"
    by (simp add: toggleTodo_fulfilled)
  ultimately show ?thesis by (rule conjI)
qed

text \<open>
  C8.  For a task at position \<open>k\<close> of the collection: toggle its completion to the
  negated state and then back, with both update requests made and fulfilled.  After the
  first call the flag is negated; after the second the task is what it was at the start,
  so its flag has its original value; together the two calls made exactly two update
  requests, the first with the negated and the second with the original state.
\<close>

theorem toggle_twice_restores_flag:
  "k < length (todos st) \<Longrightarrow>
   toggleTodo (Fulfilled ack1) (id' (todos st ! k)) (\<not> completed (todos st ! k)) st = (st1, ev1) \<Longrightarrow>
   toggleTodo (Fulfilled ack2) (id' (todos st ! k)) (completed (todos st ! k)) st1 = (st2, ev2) \<Longrightarrow>
   list_ex is_update ev1 \<Longrightarrow> list_ex is_update ev2 \<Longrightarrow>
   completed (todos st1 ! k) = (\<not> completed (todos st ! k)) \<and>
   completed (todos st2 ! k) = completed (todos st ! k) \<and>
   todos st2 ! k = todos st ! k \<and>
   filter is_update (ev1 @ ev2) =
     [DbUpdate (id' (todos st ! k)) (\<not> completed (todos st ! k)),
      DbUpdate (id' (todos st ! k)) (completed (todos st ! k))]"
proof -
  assume k: "k < length (todos st)"
    and t1: "toggleTodo (Fulfilled ack1) (id' (todos st ! k)) (\<not> completed (todos st ! k)) st
      = (st1, ev1)"
    and t2: "toggleTodo (Fulfilled ack2) (id' (todos st ! k)) (completed (todos st ! k)) st1
      = (st2, ev2)"
    and u1: "list_ex is_update ev1"
  let ?i = "id' (todos st ! k)"
  let ?c = "completed (todos st ! k)"
  have "list_ex is_update (snd (toggleTodo (Fulfilled ack1) ?i (\<not> ?c) st))"
    unfolding t1 using u1 by simp
  then have i: "?i \<noteq> []"
    by (simp add: toggleTodo_request_made)
  have s1: "todos st1 = map (\<lambda>todo. if id' todo = ?i then todo\<lparr>completed := \<not> ?c\<rparr> else todo) (todos st)"
    and e1: "ev1 = [DbUpdate ?i (\<not> ?c),
       ToastSuccess (if \<not> ?c then ''Todo completed!'' else ''Todo marked as incomplete'')]"
    using t1 i by (auto simp: toggleTodo_fulfilled)
  have s2: "todos st2 = map (\<lambda>todo. if id' todo = ?i then todo\<lparr>completed := ?c\<rparr> else todo) (todos st1)"
    and e2: "ev2 = [DbUpdate ?i ?c,
       ToastSuccess (if ?c then ''Todo completed!'' else ''Todo marked as incomplete'')]"
    using t2 i by (auto simp: toggleTodo_fulfilled)
  have a: "todos st1 ! k = (todos st ! k)\<lparr>completed := \<not> ?c\<rparr>"
    using k by (simp add: s1)
  have b: "todos st2 ! k = todos st ! k"
    using k by (simp add: s2 a) (simp add: s1)
  show ?thesis
    using a b by (simp add: e1 e2)
qed

theorem toggle_twice_restores_flag_witness:
  "0 < length (todos (example_state [example_todo ''a'' ''x'' [] False] [] [])) \<and>
   list_ex is_update
     (snd (toggleTodo (Fulfilled ()) ''a'' True
        (example_state [example_todo ''a'' ''x'' [] False] [] []))) \<and>
   list_ex is_update
     (snd (toggleTodo (Fulfilled ()) ''a'' False
        (fst (toggleTodo (Fulfilled ()) ''a'' True
           (example_state [example_todo ''a'' ''x'' [] False] [] []))))) \<and>
   todos (fst (toggleTodo (Fulfilled ()) ''a'' False
        (fst (toggleTodo (Fulfilled ()) ''a'' True
           (example_state [example_todo ''a'' ''x'' [] False] [] []))))) ! 0 =
     example_todo ''a'' ''x'' [] False \<and>
   filter is_update
     (snd (toggleTodo (Fulfilled ()) ''a'' True
        (example_state [example_todo ''a'' ''x'' [] False] [] [])) @
      snd (toggleTodo (Fulfilled ()) ''a'' False
        (fst (toggleTodo (Fulfilled ()) ''a'' True
           (example_state [example_todo ''a'' ''x'' [] False] [] []))))) =
     [DbUpdate ''a'' True, DbUpdate ''a'' False]"
proof -
  let ?s = "example_state [example_todo ''a'' ''x'' [] False] [] []"
  let ?r1 = "toggleTodo (Fulfilled ()) ''a'' True ?s"
  let ?r2 = "toggleTodo (Fulfilled ()) ''a'' False (fst ?r1)"
  have k: "0 < length (todos ?s)"
    by (simp add: example_state_fields)
  have i: "id' (todos ?s ! 0) = ''a''" and c: "completed (todos ?s ! 0) = False"
    and e: "todos ?s ! 0 = example_todo ''a'' ''x'' [] False"
    by (simp_all add: example_state_fields example_todo_fields)
  have t1: "toggleTodo (Fulfilled ()) (id' (todos ?s ! 0)) (\<not> completed (todos ?s ! 0)) ?s =
      (fst ?r1, snd ?r1)"
    by (simp only: i c not_False_eq_True prod.collapse)
  have t2: "toggleTodo (Fulfilled ()) (id' (todos ?s ! 0)) (completed (todos ?s ! 0)) (fst ?r1) =
      (fst ?r2, snd ?r2)"
    by (simp only: i c prod.collapse)
  have u1: "list_ex is_update (snd ?r1)" and u2: "list_ex is_update (snd ?r2)"
    by (simp_all add: toggleTodo_request_made)
  note t = toggle_twice_restores_flag [OF k t1 t2 u1 u2]
  have w1: "todos (fst ?r2) ! 0 = example_todo ''a'' ''x'' [] False"
    using t [THEN conjunct2, THEN conjunct2, THEN conjunct1] by (simp only: e)
  have w2: "filter is_update (snd ?r1 @ snd ?r2) = [DbUpdate ''a'' True, DbUpdate ''a'' False]"
    using t [THEN conjunct2, THEN conjunct2, THEN conjunct2]
    by (simp only: i c not_False_eq_True)
  show ?thesis
    by (intro conjI k u1 u2 w1 w2)
qed

text \<open>
  C9.  A toggle whose update request fulfils keeps the length and the order of the
  collection: a task with another id is unchanged; a task with the given id, when the
  request was made, is the old task with \<open>completed\<close> set to the new state; in every
  case the new task differs from the old one in \<open>completed\<close> at most, so \<open>id\<close>, \<open>title\<close>,
  \<open>description\<close>, \<open>category\<close>, \<open>priority\<close>, \<open>created_at\<close>, \<open>due_date\<close> and \<open>user_id\<close> are
  kept.  The rest of the state is unchanged.
\<close>

theorem toggle_changes_only_completed:
  "length (todos (fst (toggleTodo (Fulfilled ack) i c st))) = length (todos st) \<and>
   (\<forall>k < length (todos st).
      (id' (todos st ! k) \<noteq> i \<longrightarrow>
         todos (fst (toggleTodo (Fulfilled ack) i c st)) ! k = todos st ! k) \<and>
      (id' (todos st ! k) = i \<and> list_ex is_update (snd (toggleTodo (Fulfilled ack) i c st)) \<longrightarrow>
         todos (fst (toggleTodo (Fulfilled ack) i c st)) ! k = (todos st ! k)\<lparr>completed := c\<rparr>) \<and>
      (\<exists>b. todos (fst (toggleTodo (Fulfilled ack) i c st)) ! k =
         (todos st ! k)\<lparr>completed := b\<rparr>)) \<and>
   (fst (toggleTodo (Fulfilled ack) i c st))\<lparr>todos := todos st\<rparr> = st"
proof (cases "i = []")
  case True
  have "\<exists>b. t = t\<lparr>completed := b\<rparr>" for t :: Todo
    by (rule exI [of _ "completed t"]) simp
  then show ?thesis
    using True by (simp add: toggleTodo_empty)
next
  case False
  have "\<exists>b. t\<lparr>completed := c\<rparr> = t\<lparr>completed := b\<rparr>" for t :: Todo
    by (rule exI [of _ c]) simp
  moreover have "\<exists>b. t = t\<lparr>completed := b\<rparr>" for t :: Todo
    by (rule exI [of _ "completed t"]) simp
  ultimately show ?thesis
    using False by (simp add: toggleTodo_fulfilled)
qed

theorem toggle_changes_only_completed_witness:
  "todos (fst (toggleTodo (Fulfilled ()) ''b'' True
     (example_state
        [example_todo ''a'' ''x'' [] False, example_todo ''b'' ''y'' [] False] [] []))) ! 0 =
     example_todo ''a'' ''x'' [] False \<and>
   todos (fst (toggleTodo (Fulfilled ()) ''b'' True
     (example_state
        [example_todo ''a'' ''x'' [] False, example_todo ''b'' ''y'' [] False] [] []))) ! 1 =
     example_todo ''b'' ''y'' [] True"
proof -
  let ?s = "example_state
        [example_todo ''a'' ''x'' [] False, example_todo ''b'' ''y'' [] False] [] []"
  note t = toggle_changes_only_completed
    [where ack = "()" and i = "''b''" and c = True and st = ?s,
      THEN conjunct2, THEN conjunct1]
  have k0: "0 < length (todos ?s)" and k1: "1 < length (todos ?s)"
    by (simp_all add: example_state_fields)
  have h0: "id' (todos ?s ! 0) \<noteq> ''b''"
    by (simp add: example_state_fields example_todo_fields)
  have h1: "id' (todos ?s ! 1) = ''b'' \<and>
      list_ex is_update (snd (toggleTodo (Fulfilled ()) ''b'' True ?s))"
    by (simp add: example_state_fields example_todo_fields toggleTodo_request_made)
  have w0: "todos (fst (toggleTodo (Fulfilled ()) ''b'' True ?s)) ! 0 = todos ?s ! 0"
    by (rule t [THEN spec, THEN mp, OF k0, THEN conjunct1, THEN mp, OF h0])
  have w1: "todos (fst (toggleTodo (Fulfilled ()) ''b'' True ?s)) ! 1 =
      (todos ?s ! 1)\<lparr>completed := True\<rparr>"
    by (rule t [THEN spec, THEN mp, OF k1, THEN conjunct2, THEN conjunct1, THEN mp, OF h1])
  have e0: "todos ?s ! 0 = example_todo ''a'' ''x'' [] False"
    by (simp add: example_state_fields)
  have e1: "(todos ?s ! 1)\<lparr>completed := True\<rparr> = example_todo ''b'' ''y'' [] True"
    by (simp add: example_state_fields example_todo_def)
  show ?thesis
    using w0 w1 by (simp only: e0 e1)
qed

section \<open>Properties of the filtered view\<close>


















end
